theory Spec2Isabelle
  imports Complex_Main
begin

section \<open>Vectors, boxes and tracked hands\<close>

text \<open>
  JavaScript numbers are modelled as real numbers: rounding of the double and Float32
  storage is not part of the model. A \<^verbatim>\<open>THREE.Vector3\<close> is a triple; the few three.js
  operations the systems call are written out as three.js computes them.
\<close>

type_synonym vec3 = "real \<times> real \<times> real"

definition vx :: "vec3 \<Rightarrow> real" where "vx v = fst v"
definition vy :: "vec3 \<Rightarrow> real" where "vy v = fst (snd v)"
definition vz :: "vec3 \<Rightarrow> real" where "vz v = snd (snd v)"

text \<open>\<^verbatim>\<open>Vector3.distanceTo\<close>: the Euclidean distance.\<close>

definition distanceTo :: "vec3 \<Rightarrow> vec3 \<Rightarrow> real" where
  "distanceTo a b =
     sqrt ((vx a - vx b) * (vx a - vx b) + (vy a - vy b) * (vy a - vy b)
           + (vz a - vz b) * (vz a - vz b))"

text \<open>\<^verbatim>\<open>Vector3.lerp(v, alpha)\<close>: each coordinate moves by \<open>(v - this) * alpha\<close>; the factor
  is not clamped.\<close>

definition lerp :: "vec3 \<Rightarrow> vec3 \<Rightarrow> real \<Rightarrow> vec3" where
  "lerp a v alpha =
     (vx a + (vx v - vx a) * alpha, vy a + (vy v - vy a) * alpha, vz a + (vz v - vz a) * alpha)"

record Box3 =
  box_min :: vec3
  box_max :: vec3

definition expandByScalar :: "Box3 \<Rightarrow> real \<Rightarrow> Box3" where
  "expandByScalar b s =
     \<lparr>box_min = (vx (box_min b) - s, vy (box_min b) - s, vz (box_min b) - s),
      box_max = (vx (box_max b) + s, vy (box_max b) + s, vz (box_max b) + s)\<rparr>"

definition containsPoint :: "Box3 \<Rightarrow> vec3 \<Rightarrow> bool" where
  "containsPoint b p \<longleftrightarrow>
     vx (box_min b) \<le> vx p \<and> vx p \<le> vx (box_max b) \<and>
     vy (box_min b) \<le> vy p \<and> vy p \<le> vy (box_max b) \<and>
     vz (box_min b) \<le> vz p \<and> vz p \<le> vz (box_max b)"

datatype Handedness = LeftHand | RightHand | NoHandedness

text \<open>
  What \<^verbatim>\<open>hand.jointSpaces[17]\<close> can be: an \<^verbatim>\<open>Object3D\<close> (with its world position), an
  object carrying a \<^verbatim>\<open>matrixWorld\<close> (with the position stored in it), or a bare joint
  space that has neither.
\<close>

datatype Joint = JointObject3D vec3 | JointMatrixWorld vec3 | JointSpace

text \<open>
  A hand adapter as one frame sees it. \<open>hand_id\<close> is the identity of the adapter object,
  which lives across frames. \<open>gripSpace\<close> and \<open>raySpace\<close> are \<open>None\<close> when the property is
  missing or is no \<^verbatim>\<open>Object3D\<close>. \<open>handObject3D\<close> is \<open>None\<close> when the hand has no
  \<^verbatim>\<open>object3D\<close>, else the outcome of searching its scene graph for the tip joint;
  \<open>xrFramePose\<close> is the outcome of asking the XR frame for the joint's pose.
\<close>

record Hand =
  hand_id :: nat
  handedness :: Handedness
  gripSpace :: "vec3 option"
  indexTip :: "Joint option"
  raySpace :: "vec3 option"
  handObject3D :: "vec3 option option"
  xrFramePose :: "vec3 option"

text \<open>The adapters that are hand adapters, in the order of \<^verbatim>\<open>Object.entries\<close>.\<close>

definition collectHands :: "Hand option list \<Rightarrow> Hand list" where
  "collectHands adapters = List.map_filter (\<lambda>a. a) adapters"


section \<open>ButtonSystem\<close>

datatype ButtonState = resting | pressed | fully_pressed | recovering

record Button =
  currState :: ButtonState
  prevState :: ButtonState
  restingY :: real
  surfaceY :: real
  recoverySpeed :: real
  fullPressDistance :: real
  actionTriggered :: bool

text \<open>The component's defaults.\<close>

definition Button_default :: Button where
  "Button_default =
     \<lparr>currState = resting, prevState = resting, restingY = -1, surfaceY = 0.05,
      recoverySpeed = 0.4, fullPressDistance = 0.02, actionTriggered = False\<rparr>"

text \<open>
  The button's mesh: its local \<open>position.y\<close>, which the system moves, and the top of its
  geometry's bounding box (\<open>None\<close> when the object is no mesh with a geometry).
\<close>

record ButtonMesh =
  position_y :: real
  geometryTopY :: "real option"

record ButtonEntity =
  be_index :: nat
  be_object3D :: "ButtonMesh option"
  be_button :: Button

text \<open>
  One frame's input to \<^verbatim>\<open>ButtonSystem.update\<close>. \<open>bf_box\<close> is what
  \<^verbatim>\<open>Box3.setFromObject\<close> gives for an entity's mesh this frame and \<open>bf_worldToLocal\<close> the
  mesh's \<^verbatim>\<open>worldToLocal\<close>; both belong to three.js and the scene and are taken as given.
\<close>

record ButtonFrame =
  bf_delta :: real
  bf_worldXrInput :: bool
  bf_xrSession :: bool
  bf_handAdapters :: "Hand option list option"
  bf_box :: "nat \<Rightarrow> Box3"
  bf_worldToLocal :: "nat \<Rightarrow> vec3 \<Rightarrow> vec3"

text \<open>The four ways the update tries to find the world position of the index finger tip.\<close>

definition pointerPosition :: "Hand \<Rightarrow> vec3 option" where
  "pointerPosition hand =
     (case indexTip hand of
        None \<Rightarrow> None
      | Some (JointObject3D p) \<Rightarrow> Some p
      | Some (JointMatrixWorld p) \<Rightarrow> Some p
      | Some JointSpace \<Rightarrow>
          (case handObject3D hand of
             Some found \<Rightarrow> found
           | None \<Rightarrow> xrFramePose hand))"

text \<open>The surface height used for a press: the geometry's top when it is in \<open>(0, 1)\<close>.\<close>

definition buttonSurfaceY :: "Button \<Rightarrow> ButtonMesh \<Rightarrow> real" where
  "buttonSurfaceY b m =
     (case geometryTopY m of
        Some topY \<Rightarrow> if topY > 0 \<and> topY < 1.0 then topY else surfaceY b
      | None \<Rightarrow> surfaceY b)"

text \<open>What one hand pushes onto \<open>pressingDistances\<close>, if anything. \<open>box\<close> is the expanded box.\<close>

definition handPressingDistance ::
  "Box3 \<Rightarrow> (vec3 \<Rightarrow> vec3) \<Rightarrow> Button \<Rightarrow> ButtonMesh \<Rightarrow> Hand \<Rightarrow> real option" where
  "handPressingDistance box toLocal b m hand =
     (case pointerPosition hand of
        None \<Rightarrow> None
      | Some p \<Rightarrow>
          if containsPoint box p then
            (let pressingDistance = buttonSurfaceY b m - vy (toLocal p)
             in if pressingDistance > - 0.0016 then Some (max 0 pressingDistance) else None)
          else None)"

definition pressingDistances ::
  "Box3 \<Rightarrow> (vec3 \<Rightarrow> vec3) \<Rightarrow> Button \<Rightarrow> ButtonMesh \<Rightarrow> Hand list \<Rightarrow> real list" where
  "pressingDistances box toLocal b m hands =
     List.map_filter (handPressingDistance (expandByScalar box 0.06) toLocal b m) hands"

text \<open>
  The state and the mesh height the collisions give: recovery when nothing presses, else
  the press with its clamp at the full press distance.
\<close>

definition pressMotion ::
  "real \<Rightarrow> real \<Rightarrow> real \<Rightarrow> real \<Rightarrow> real list \<Rightarrow> real \<Rightarrow> ButtonState \<times> real" where
  "pressMotion delta rY rSpeed fullPress ds y =
     (case ds of
        [] \<Rightarrow> if y < rY then (recovering, y + rSpeed * delta) else (resting, rY)
      | d # rest \<Rightarrow>
          (let maxPressingDistance = fold max rest d;
               y1 = (if maxPressingDistance > 0
                     then max (rY - maxPressingDistance) (rY - fullPress) else y)
           in if y1 \<le> rY - fullPress then (fully_pressed, rY - fullPress)
              else (pressed, y1)))"

text \<open>
  The action trigger at the end of the loop body. \<open>action\<close> says whether a callback is
  registered for the button; the result says whether it was called.
\<close>

definition triggerAction :: "bool \<Rightarrow> Button \<Rightarrow> Button \<times> bool" where
  "triggerAction action b =
     (if currState b = fully_pressed \<and> prevState b \<noteq> fully_pressed then
        (if action \<and> \<not> actionTriggered b then (b\<lparr>actionTriggered := True\<rparr>, True)
         else (b, False))
      else if currState b \<noteq> fully_pressed then (b\<lparr>actionTriggered := False\<rparr>, False)
      else (b, False))"

text \<open>The body of the loop over the pressable entities, for an entity that has a mesh.\<close>

definition updateButton ::
  "real \<Rightarrow> bool \<Rightarrow> Box3 \<Rightarrow> (vec3 \<Rightarrow> vec3) \<Rightarrow> Hand list \<Rightarrow> Button \<Rightarrow> ButtonMesh
     \<Rightarrow> (Button \<times> ButtonMesh) \<times> bool" where
  "updateButton delta action box toLocal hands b m =
     (let b1 = (if restingY b < 0 then b\<lparr>restingY := position_y m\<rparr> else b);
          b2 = b1\<lparr>prevState := currState b1, currState := resting\<rparr>;
          ds = pressingDistances box toLocal b2 m hands;
          (st, y) = pressMotion delta (restingY b2) (recoverySpeed b2) (fullPressDistance b2)
                      ds (position_y m);
          (b3, fired) = triggerAction action (b2\<lparr>currState := st\<rparr>)
      in ((b3, m\<lparr>position_y := y\<rparr>), fired))"

text \<open>
  One frame for one entity, with the early returns of \<^verbatim>\<open>update\<close> in front of the loop:
  no input manager, no XR session, no hand adapters, no hands. \<open>cached\<close> says whether the
  system already holds an input manager; otherwise it takes the world's, if there is one.
\<close>

definition buttonFrame ::
  "bool \<Rightarrow> bool \<Rightarrow> ButtonFrame \<Rightarrow> ButtonEntity \<Rightarrow> ButtonEntity \<times> bool" where
  "buttonFrame cached action fr e =
     (if \<not> (cached \<or> bf_worldXrInput fr) then (e, False)
      else if \<not> bf_xrSession fr then (e, False)
      else case bf_handAdapters fr of
        None \<Rightarrow> (e, False)
      | Some adapters \<Rightarrow>
          (let hands = collectHands adapters in
           if hands = [] then (e, False)
           else case be_object3D e of
             None \<Rightarrow> (e, False)
           | Some m \<Rightarrow>
               (let ((b', m'), fired) =
                      updateButton (bf_delta fr) action (bf_box fr (be_index e))
                        (bf_worldToLocal fr (be_index e)) hands (be_button e) m
                in (e\<lparr>be_object3D := Some m', be_button := b'\<rparr>, fired))))"

text \<open>
  The system: the cached input manager and the pressable entities. \<open>buttonActions\<close> is
  the module's table of callbacks, here the set of indices with a callback that is not
  null. The update returns the indices whose callback it called.
\<close>

record ButtonSystem =
  bs_xrInput :: bool
  bs_pressable :: "ButtonEntity list"

definition ButtonSystem_update ::
  "(nat \<Rightarrow> bool) \<Rightarrow> ButtonFrame \<Rightarrow> ButtonSystem \<Rightarrow> ButtonSystem \<times> nat list" where
  "ButtonSystem_update buttonActions fr s =
     (let results = map (\<lambda>e. buttonFrame (bs_xrInput s) (buttonActions (be_index e)) fr e)
                      (bs_pressable s)
      in (\<lparr>bs_xrInput = (bs_xrInput s \<or> bf_worldXrInput fr), bs_pressable = map fst results\<rparr>,
          map (be_index \<circ> fst) (filter snd results)))"

text \<open>\<^verbatim>\<open>NESSystem.getButtonState\<close> for a mapped entity: down when pressed or fully pressed.\<close>

definition getButtonState :: "ButtonEntity option \<Rightarrow> bool" where
  "getButtonState entity =
     (case entity of
        None \<Rightarrow> False
      | Some e \<Rightarrow> currState (be_button e) = pressed \<or> currState (be_button e) = fully_pressed)"

text \<open>
  A run of frames for one entity: the entity after each frame and whether the callback
  was called in it.
\<close>

fun runButton ::
  "bool \<Rightarrow> bool \<Rightarrow> ButtonFrame list \<Rightarrow> ButtonEntity \<Rightarrow> (ButtonEntity \<times> bool) list" where
  "runButton cached action [] e = []"
| "runButton cached action (fr # frs) e =
     (let r = buttonFrame cached action fr e
      in r # runButton (cached \<or> bf_worldXrInput fr) action frs (fst r))"


section \<open>StickGrabSystem\<close>

record StickGrab =
  attached :: bool
  justAttached :: bool
  justDetached :: bool

record AnalogStick =
  centerX :: real
  centerY :: real
  centerZ :: real
  maxRadius :: real
  stickX :: real
  stickY :: real
  stickAngle :: real
  stickMagnitude :: real
  isActive :: bool
  returnSpeed :: real

text \<open>
  The stick's mesh, by its world position and its rotation. The systems write the local
  position through the parent's \<^verbatim>\<open>worldToLocal\<close>; the model takes the parent as fixed, so
  that the world position read back is the one written.
\<close>

record StickMesh =
  worldPosition :: vec3
  rotation :: vec3

record StickEntity =
  se_index :: nat
  se_object3D :: "StickMesh option"
  se_grab :: StickGrab
  se_analog :: AnalogStick

text \<open>The two properties the grab system stores on a hand adapter; unset reads as false.\<close>

record HandFlags =
  justStartedSelecting :: bool
  justStoppedSelecting :: bool

text \<open>
  An input source of the XR session: its handedness, whether it is a hand, and its
  gamepad (\<open>None\<close> when it has none, else whether button 0 reads as pressed).
\<close>

record InputSource =
  is_handedness :: Handedness
  is_hand :: bool
  is_gamepad :: "bool option"

text \<open>
  One frame's input to the two stick systems. \<open>sf_xrSession\<close> is \<open>None\<close> outside an XR
  session, else the session's input sources. \<open>sf_handObject\<close> is the adapter object with a
  given identity as it is this frame, listed among the adapters or not.
\<close>

record StickFrame =
  sf_delta :: real
  sf_worldXrInput :: bool
  sf_handAdapters :: "Hand option list option"
  sf_xrSession :: "InputSource list option"
  sf_handObject :: "nat \<Rightarrow> Hand"

text \<open>
  The state the stick systems keep: the stick entities, the module's \<open>attachedHands\<close>
  table (stick index to hand adapter), the properties stored on the adapters, and the
  private fields of \<^verbatim>\<open>StickGrabSystem\<close> and \<^verbatim>\<open>AnalogStickSystem\<close>. \<open>attachMap\<close> is cleared at
  the start of every update and is local to it here. \<open>pivotOffsets\<close> is read into a
  variable that is never used and is left out.
\<close>

record StickWorld =
  sticks :: "StickEntity list"
  attachedHands :: "nat \<rightharpoonup> nat"
  handFlags :: "nat \<Rightarrow> HandFlags"
  sg_xrInput :: bool
  previousButtonStates :: "Handedness \<rightharpoonup> bool"
  as_xrInput :: bool
  initialPositions :: "nat \<rightharpoonup> vec3"
  initialRotations :: "nat \<rightharpoonup> vec3"
  grabbedHands :: "nat \<rightharpoonup> nat"
  grabHandPositions :: "nat \<rightharpoonup> vec3"

text \<open>The first input source of the hand's side that is a hand.\<close>

definition findInputSource :: "InputSource list \<Rightarrow> Handedness \<Rightarrow> InputSource option" where
  "findInputSource sources side = find (\<lambda>s. is_handedness s = side \<and> is_hand s) sources"

text \<open>
  The select state of a hand: \<open>(isPressed, justStartedSelecting, justStoppedSelecting)\<close>
  and the table of previous button states, which is written only when the hand's input
  source has a gamepad.
\<close>

definition selectState ::
  "InputSource list \<Rightarrow> (Handedness \<rightharpoonup> bool) \<Rightarrow> Handedness
     \<Rightarrow> (bool \<times> bool \<times> bool) \<times> (Handedness \<rightharpoonup> bool)" where
  "selectState sources prev side =
     (case findInputSource sources side of
        None \<Rightarrow> ((False, False, False), prev)
      | Some src \<Rightarrow>
          (case is_gamepad src of
             None \<Rightarrow> ((False, False, False), prev)
           | Some isPressed \<Rightarrow>
               (let previousState = (case prev side of Some p \<Rightarrow> p | None \<Rightarrow> False)
                in ((isPressed, isPressed \<and> \<not> previousState, \<not> isPressed \<and> previousState),
                    prev(side \<mapsto> isPressed)))))"

text \<open>
  The sticks that are not attached and have a mesh, each with its distance to the hand,
  sorted by distance; the sort is stable, as the one of JavaScript is.
\<close>

definition availableSticks :: "StickEntity list \<Rightarrow> vec3 \<Rightarrow> (StickEntity \<times> real) list" where
  "availableSticks ents handPosition =
     sort_key snd
       (List.map_filter
          (\<lambda>e. case se_object3D e of
                  None \<Rightarrow> None
                | Some m \<Rightarrow> Some (e, distanceTo (worldPosition m) handPosition))
          (filter (\<lambda>e. \<not> attached (se_grab e)) ents))"

record GrabAcc =
  acc_previous :: "Handedness \<rightharpoonup> bool"
  acc_flags :: "nat \<Rightarrow> HandFlags"
  acc_attachMap :: "nat \<rightharpoonup> nat"

text \<open>
  The body of the loop over the hands. A hand without a grip space is skipped before
  anything is written. Otherwise the hand claims its closest available stick in
  \<open>attachMap\<close> when the stick is closer than 0.10 and the trigger is pressed or was just
  pressed; a claim overwrites the claim of an earlier hand on the same stick.
\<close>

definition grabHand :: "InputSource list \<Rightarrow> StickEntity list \<Rightarrow> Hand \<Rightarrow> GrabAcc \<Rightarrow> GrabAcc" where
  "grabHand sources ents hand acc =
     (case gripSpace hand of
        None \<Rightarrow> acc
      | Some handPosition \<Rightarrow>
          (let sel = selectState sources (acc_previous acc) (handedness hand);
               isPressed = fst (fst sel);
               justStarted = fst (snd (fst sel));
               justStopped = snd (snd (fst sel));
               attachMap' =
                 (case availableSticks ents handPosition of
                    [] \<Rightarrow> acc_attachMap acc
                  | closest # _ \<Rightarrow>
                      if (justStarted \<or> isPressed) \<and> snd closest < 0.10
                      then (acc_attachMap acc)(se_index (fst closest) \<mapsto> hand_id hand)
                      else acc_attachMap acc)
           in \<lparr>acc_previous = snd sel,
               acc_flags = (acc_flags acc)
                 (hand_id hand := \<lparr>justStartedSelecting = justStarted,
                                    justStoppedSelecting = justStopped\<rparr>),
               acc_attachMap = attachMap'\<rparr>))"

definition grabHands ::
  "InputSource list \<Rightarrow> StickEntity list \<Rightarrow> Hand list \<Rightarrow> GrabAcc \<Rightarrow> GrabAcc" where
  "grabHands sources ents hands acc = fold (grabHand sources ents) hands acc"

text \<open>Whether the attached hand's trigger still reads as pressed.\<close>

definition stillSelecting :: "InputSource list \<Rightarrow> Hand \<Rightarrow> bool" where
  "stillSelecting sources attachedHand =
     (case findInputSource sources (handedness attachedHand) of
        None \<Rightarrow> False
      | Some src \<Rightarrow> (case is_gamepad src of None \<Rightarrow> False | Some p \<Rightarrow> p))"

text \<open>
  The body of the loop over the sticks, for one stick: the new entity and the new
  \<open>attachedHands\<close> table.
\<close>

definition grabStick ::
  "InputSource list \<Rightarrow> (nat \<Rightarrow> Hand) \<Rightarrow> (nat \<rightharpoonup> nat) \<Rightarrow> (nat \<Rightarrow> HandFlags)
     \<Rightarrow> StickEntity \<Rightarrow> (nat \<rightharpoonup> nat) \<Rightarrow> StickEntity \<times> (nat \<rightharpoonup> nat)" where
  "grabStick sources handObject attachMap flags e owners =
     (case se_object3D e of
        None \<Rightarrow> (e, owners)
      | Some _ \<Rightarrow>
          (let idx = se_index e;
               g = (se_grab e)\<lparr>justAttached := False, justDetached := False\<rparr>
           in if \<not> attached g then
                (case attachMap idx of
                   None \<Rightarrow> (e\<lparr>se_grab := g\<rparr>, owners)
                 | Some hand \<Rightarrow>
                     if justStartedSelecting (flags hand)
                     then (e\<lparr>se_grab := g\<lparr>attached := True, justAttached := True\<rparr>\<rparr>,
                           owners(idx \<mapsto> hand))
                     else (e\<lparr>se_grab := g\<rparr>, owners))
              else
                (case owners idx of
                   None \<Rightarrow> (e\<lparr>se_grab := g\<rparr>, owners)
                 | Some attachedHand \<Rightarrow>
                     if \<not> stillSelecting sources (handObject attachedHand)
                        \<or> justStoppedSelecting (flags attachedHand)
                     then (e\<lparr>se_grab := g\<lparr>attached := False, justDetached := True\<rparr>\<rparr>,
                           owners(idx := None))
                     else (e\<lparr>se_grab := g\<rparr>, owners))))"

text \<open>The loop over the sticks, threading the \<open>attachedHands\<close> table.\<close>

fun grabSticks ::
  "InputSource list \<Rightarrow> (nat \<Rightarrow> Hand) \<Rightarrow> (nat \<rightharpoonup> nat) \<Rightarrow> (nat \<Rightarrow> HandFlags)
     \<Rightarrow> StickEntity list \<Rightarrow> (nat \<rightharpoonup> nat) \<Rightarrow> StickEntity list \<times> (nat \<rightharpoonup> nat)" where
  "grabSticks sources handObject attachMap flags [] owners = ([], owners)"
| "grabSticks sources handObject attachMap flags (e # es) owners =
     (let r = grabStick sources handObject attachMap flags e owners;
          rs = grabSticks sources handObject attachMap flags es (snd r)
      in (fst r # fst rs, snd rs))"

text \<open>
  \<^verbatim>\<open>StickGrabSystem.update\<close>, with its early returns: no input manager, no hand adapters,
  no XR session.
\<close>

definition StickGrabSystem_update :: "StickFrame \<Rightarrow> StickWorld \<Rightarrow> StickWorld" where
  "StickGrabSystem_update fr w =
     (if \<not> (sg_xrInput w \<or> sf_worldXrInput fr) then w
      else case sf_handAdapters fr of
        None \<Rightarrow> w\<lparr>sg_xrInput := True\<rparr>
      | Some adapters \<Rightarrow>
          (case sf_xrSession fr of
             None \<Rightarrow> w\<lparr>sg_xrInput := True\<rparr>
           | Some sources \<Rightarrow>
               (let acc = grabHands sources (sticks w) (collectHands adapters)
                            \<lparr>acc_previous = previousButtonStates w,
                             acc_flags = handFlags w, acc_attachMap = Map.empty\<rparr>;
                    r = grabSticks sources (sf_handObject fr) (acc_attachMap acc)
                          (acc_flags acc) (sticks w) (attachedHands w)
                in w\<lparr>sg_xrInput := True, previousButtonStates := acc_previous acc,
                      handFlags := acc_flags acc, sticks := fst r,
                      attachedHands := snd r\<rparr>)))"


section \<open>AnalogStickSystem\<close>

text \<open>\<^verbatim>\<open>Math.atan2\<close> on real arguments.\<close>

definition Math_atan2 :: "real \<Rightarrow> real \<Rightarrow> real" where
  "Math_atan2 y x =
     (if x > 0 then arctan (y / x)
      else if x < 0 \<and> y \<ge> 0 then arctan (y / x) + pi
      else if x < 0 then arctan (y / x) - pi
      else if y > 0 then pi / 2
      else if y < 0 then - (pi / 2)
      else 0)"

text \<open>
  The position of the grabbing hand: its grip space, else its index finger tip, else its
  ray space.
\<close>

definition stickHandPosition :: "Hand \<Rightarrow> vec3 option" where
  "stickHandPosition hand =
     (case gripSpace hand of
        Some p \<Rightarrow> Some p
      | None \<Rightarrow>
          (case (case indexTip hand of
                   Some (JointObject3D p) \<Rightarrow> Some p
                 | Some (JointMatrixWorld p) \<Rightarrow> Some p
                 | _ \<Rightarrow> None) of
             Some p \<Rightarrow> Some p
           | None \<Rightarrow> raySpace hand))"

text \<open>What the system keeps for one stick index in its private maps.\<close>

record StickSlot =
  sl_initialPosition :: "vec3 option"
  sl_initialRotation :: "vec3 option"
  sl_grabbedHand :: "nat option"
  sl_grabHandPosition :: "vec3 option"

text \<open>
  The attached branch once the hand's position, the grab position and the initial pose
  are known: the stick follows the hand in the horizontal plane, inside the circle of
  radius \<open>maxRadius\<close>, and the axis values are published. A division by a \<open>maxRadius\<close> of
  zero is outside the model.
\<close>

definition trackHand ::
  "vec3 \<Rightarrow> vec3 \<Rightarrow> vec3 \<Rightarrow> vec3 \<Rightarrow> AnalogStick \<Rightarrow> StickMesh \<Rightarrow> AnalogStick \<times> StickMesh" where
  "trackHand handPosition grabHandPos initialPos initialRot a m =
     (let deltaX = vx handPosition - vx grabHandPos;
          deltaZ = vz handPosition - vz grabHandPos;
          horizontalDistance = sqrt (deltaX * deltaX + deltaZ * deltaZ);
          scale = maxRadius a / horizontalDistance;
          moveX = (if horizontalDistance > maxRadius a then deltaX * scale else deltaX);
          moveZ = (if horizontalDistance > maxRadius a then deltaZ * scale else deltaZ);
          tiltDirection = (if horizontalDistance > 0.001 then Math_atan2 deltaZ deltaX else 0);
          newPos = (vx initialPos + moveX, vy initialPos, vz initialPos + moveZ);
          magnitude = min (horizontalDistance / maxRadius a) 1.0;
          sx = (if magnitude > 0 then moveX / maxRadius a else 0);
          sy = (if magnitude > 0 then moveZ / maxRadius a else 0)
      in (a\<lparr>stickX := max (- 1) (min 1 sx), stickY := max (- 1) (min 1 sy),
            stickAngle := tiltDirection, stickMagnitude := magnitude, isActive := True\<rparr>,
          m\<lparr>worldPosition := newPos, rotation := initialRot\<rparr>))"

text \<open>
  The branch of a stick that is not grabbed: interpolate the position towards the
  initial one by the factor \<open>returnSpeed * delta\<close> and publish the axis values of the
  position before the step, or snap to the centre when closer than 0.001.
\<close>

definition springReturn ::
  "real \<Rightarrow> vec3 \<Rightarrow> vec3 \<Rightarrow> AnalogStick \<Rightarrow> StickMesh \<Rightarrow> AnalogStick \<times> StickMesh" where
  "springReturn delta initialPos initialRot a m =
     (let currentPos = worldPosition m;
          distance = distanceTo currentPos initialPos
      in if distance > 0.001 then
           (let newPos = lerp currentPos initialPos (returnSpeed a * delta);
                deltaX = vx currentPos - vx initialPos;
                deltaZ = vz currentPos - vz initialPos;
                horizontalDistance = sqrt (deltaX * deltaX + deltaZ * deltaZ);
                magnitude = min (horizontalDistance / maxRadius a) 1.0;
                angle = (if horizontalDistance > 0.001 then Math_atan2 deltaZ deltaX else 0)
            in (a\<lparr>stickX := (if magnitude > 0 then deltaX / maxRadius a else 0),
                  stickY := (if magnitude > 0 then deltaZ / maxRadius a else 0),
                  stickAngle := angle, stickMagnitude := magnitude,
                  isActive := (magnitude > 0.01)\<rparr>,
                m\<lparr>worldPosition := newPos, rotation := initialRot\<rparr>))
         else
           (a\<lparr>stickX := 0, stickY := 0, stickAngle := 0, stickMagnitude := 0,
              isActive := False\<rparr>,
            m\<lparr>worldPosition := initialPos, rotation := initialRot\<rparr>))"

text \<open>
  The body of the loop over the sticks, for a stick with a mesh. \<open>owner\<close> is the entry of
  \<open>attachedHands\<close> for the stick, as the adapter object is this frame.
\<close>

definition updateStick ::
  "real \<Rightarrow> Hand option \<Rightarrow> StickGrab \<Rightarrow> StickSlot \<Rightarrow> AnalogStick \<Rightarrow> StickMesh
     \<Rightarrow> StickSlot \<times> AnalogStick \<times> StickMesh" where
  "updateStick delta owner g sl a m =
     (let currentWorldPos = worldPosition m;
          sl1 = (if sl_initialPosition sl = None
                 then sl\<lparr>sl_initialPosition := Some currentWorldPos,
                         sl_initialRotation := Some (rotation m)\<rparr>
                 else sl);
          a1 = (if sl_initialPosition sl = None
                then a\<lparr>centerX := vx currentWorldPos, centerY := vy currentWorldPos,
                       centerZ := vz currentWorldPos\<rparr>
                else a);
          grabbingHand = (if attached g then owner else None);
          sl2 = (if attached g then
                   (case grabbingHand of
                      Some h \<Rightarrow> sl1\<lparr>sl_grabbedHand := Some (hand_id h)\<rparr>
                    | None \<Rightarrow> sl1)
                 else if sl_grabbedHand sl \<noteq> None
                 then sl1\<lparr>sl_grabbedHand := None, sl_grabHandPosition := None\<rparr>
                 else sl1)
      in case grabbingHand of
           Some h \<Rightarrow>
             (case stickHandPosition h of
                None \<Rightarrow> (sl2, a1, m)
              | Some handPosition \<Rightarrow>
                  (let sl3 = (if justAttached g
                              then sl2\<lparr>sl_grabHandPosition := Some handPosition\<rparr> else sl2);
                       m1 = (if justAttached g
                             then (case sl_initialRotation sl2 of
                                     Some r \<Rightarrow> m\<lparr>rotation := r\<rparr>
                                   | None \<Rightarrow> m)
                             else m)
                   in case sl_grabHandPosition sl3 of
                        None \<Rightarrow> (sl3\<lparr>sl_grabHandPosition := Some handPosition\<rparr>, a1, m1)
                      | Some grabHandPos \<Rightarrow>
                          (case (sl_initialPosition sl3, sl_initialRotation sl3) of
                             (Some initialPos, Some initialRot) \<Rightarrow>
                               (let r = trackHand handPosition grabHandPos initialPos
                                          initialRot a1 m1
                                in (sl3, fst r, snd r))
                           | _ \<Rightarrow> (sl3, a1, m1))))
         | None \<Rightarrow>
             (case (sl_initialPosition sl2, sl_initialRotation sl2) of
                (Some initialPos, Some initialRot) \<Rightarrow>
                  (let r = springReturn delta initialPos initialRot a1 m
                   in (sl2, fst r, snd r))
              | _ \<Rightarrow> (sl2, a1, m)))"

text \<open>The private maps of the system at one stick index, read and written.\<close>

definition stickSlot :: "StickWorld \<Rightarrow> nat \<Rightarrow> StickSlot" where
  "stickSlot w idx =
     \<lparr>sl_initialPosition = initialPositions w idx, sl_initialRotation = initialRotations w idx,
      sl_grabbedHand = grabbedHands w idx, sl_grabHandPosition = grabHandPositions w idx\<rparr>"

definition putStickSlot :: "nat \<Rightarrow> StickSlot \<Rightarrow> StickWorld \<Rightarrow> StickWorld" where
  "putStickSlot idx sl w =
     w\<lparr>initialPositions := (initialPositions w)(idx := sl_initialPosition sl),
       initialRotations := (initialRotations w)(idx := sl_initialRotation sl),
       grabbedHands := (grabbedHands w)(idx := sl_grabbedHand sl),
       grabHandPositions := (grabHandPositions w)(idx := sl_grabHandPosition sl)\<rparr>"

text \<open>One stick of the loop: a stick without a mesh is skipped.\<close>

definition analogStick :: "StickFrame \<Rightarrow> StickEntity \<Rightarrow> StickWorld \<Rightarrow> StickEntity \<times> StickWorld" where
  "analogStick fr e w =
     (case se_object3D e of
        None \<Rightarrow> (e, w)
      | Some m \<Rightarrow>
          (let idx = se_index e;
               owner = map_option (sf_handObject fr) (attachedHands w idx);
               r = updateStick (sf_delta fr) owner (se_grab e) (stickSlot w idx)
                     (se_analog e) m
           in (e\<lparr>se_analog := fst (snd r), se_object3D := Some (snd (snd r))\<rparr>,
               putStickSlot idx (fst r) w)))"

fun analogSticks ::
  "StickFrame \<Rightarrow> StickEntity list \<Rightarrow> StickWorld \<Rightarrow> StickEntity list \<times> StickWorld" where
  "analogSticks fr [] w = ([], w)"
| "analogSticks fr (e # es) w =
     (let r = analogStick fr e w;
          rs = analogSticks fr es (snd r)
      in (fst r # fst rs, snd rs))"

text \<open>
  \<^verbatim>\<open>AnalogStickSystem.update\<close>, with its early returns: no input manager, no hand adapters.
  It does not ask for an XR session.
\<close>

definition AnalogStickSystem_update :: "StickFrame \<Rightarrow> StickWorld \<Rightarrow> StickWorld" where
  "AnalogStickSystem_update fr w =
     (if \<not> (as_xrInput w \<or> sf_worldXrInput fr) then w
      else case sf_handAdapters fr of
        None \<Rightarrow> w\<lparr>as_xrInput := True\<rparr>
      | Some adapters \<Rightarrow>
          (let r = analogSticks fr (sticks w) (w\<lparr>as_xrInput := True\<rparr>)
           in (snd r)\<lparr>sticks := fst r\<rparr>))"

text \<open>A frame of the two stick systems, in the order they are registered.\<close>

definition stickSystemsFrame :: "StickFrame \<Rightarrow> StickWorld \<Rightarrow> StickWorld" where
  "stickSystemsFrame fr w = AnalogStickSystem_update fr (StickGrabSystem_update fr w)"


section \<open>Notions used in the statements\<close>

text \<open>
  The flag \<open>actionTriggered\<close> is only ever set together with the state \<open>fully_pressed\<close>;
  the component's defaults satisfy this, and every frame keeps it.
\<close>

definition triggerInv :: "ButtonEntity \<Rightarrow> bool" where
  "triggerInv e \<longleftrightarrow>
     (actionTriggered (be_button e) \<longrightarrow> currState (be_button e) = fully_pressed)"

text \<open>
  The mesh of a button is between the floor \<open>restingY - fullPressDistance\<close> and
  \<open>restingY + slack\<close>. A resting height below 0 is the component's mark for a height
  that is not captured yet; the range says nothing then.
\<close>

definition offsetWithin :: "real \<Rightarrow> ButtonEntity \<Rightarrow> bool" where
  "offsetWithin slack e \<longleftrightarrow>
     (case be_object3D e of
        None \<Rightarrow> True
      | Some m \<Rightarrow>
          restingY (be_button e) < 0
          \<or> (restingY (be_button e) - fullPressDistance (be_button e) \<le> position_y m
              \<and> position_y m \<le> restingY (be_button e) + slack))"


text \<open>The fields of a stick that the aggregator and the callbacks read.\<close>

definition published :: "AnalogStick \<Rightarrow> real \<times> real \<times> real \<times> real \<times> bool" where
  "published a = (stickX a, stickY a, stickAngle a, stickMagnitude a, isActive a)"



text \<open>The two pulses of a stick are not both set.\<close>

definition pulsesExclusive :: "StickEntity \<Rightarrow> bool" where
  "pulsesExclusive e \<longleftrightarrow> \<not> (justAttached (se_grab e) \<and> justDetached (se_grab e))"









section \<open>Example scenes\<close>

text \<open>A tracked hand whose grip space and index finger tip are both at \<open>p\<close>.\<close>

definition handAt :: "nat \<Rightarrow> Handedness \<Rightarrow> vec3 \<Rightarrow> Hand" where
  "handAt i side p =
     \<lparr>hand_id = i, handedness = side, gripSpace = Some p, indexTip = Some (JointObject3D p),
      raySpace = None, handObject3D = None, xrFramePose = None\<rparr>"

text \<open>A hand adapter that is present but has lost all of its tracked positions.\<close>

definition untrackedHand :: "nat \<Rightarrow> Handedness \<Rightarrow> Hand" where
  "untrackedHand i side =
     \<lparr>hand_id = i, handedness = side, gripSpace = None, indexTip = None,
      raySpace = None, handObject3D = None, xrFramePose = None\<rparr>"

text \<open>
  The button of the spec's scenario A: resting height 0, surface at 0.05, full press
  distance 0.02, with the mesh at height \<open>y\<close> and in state \<open>st\<close>.
\<close>

definition scenarioButton :: "ButtonState \<Rightarrow> real \<Rightarrow> ButtonEntity" where
  "scenarioButton st y =
     \<lparr>be_index = 0,
      be_object3D = Some \<lparr>position_y = y, geometryTopY = None\<rparr>,
      be_button = \<lparr>currState = st, prevState = st, restingY = 0, surfaceY = 0.05,
                   recoverySpeed = 0.4, fullPressDistance = 0.02, actionTriggered = False\<rparr>\<rparr>"

text \<open>
  A frame in an XR session with the given hand adapters, for a button mesh that sits at
  height \<open>meshY\<close>: its box and its local frame move with it.
\<close>

definition buttonSceneFrame :: "real \<Rightarrow> Hand option list \<Rightarrow> real \<Rightarrow> ButtonFrame" where
  "buttonSceneFrame delta adapters meshY =
     \<lparr>bf_delta = delta, bf_worldXrInput = True, bf_xrSession = True,
      bf_handAdapters = Some adapters,
      bf_box = (\<lambda>_. \<lparr>box_min = (- 0.05, meshY - 0.01, - 0.05),
                       box_max = (0.05, meshY + 0.05, 0.05)\<rparr>),
      bf_worldToLocal = (\<lambda>_ p. (vx p, vy p - meshY, vz p))\<rparr>"

text \<open>A frame with one finger tip at height \<open>fingerY\<close> above the centre of the button.\<close>

definition fingerFrame :: "real \<Rightarrow> real \<Rightarrow> ButtonFrame" where
  "fingerFrame fingerY meshY =
     buttonSceneFrame 0.016 [Some (handAt 1 RightHand (0, fingerY, 0))] meshY"


text \<open>
  Three frames of a finger held at height 0, far below the surface: the mesh is at rest
  in the first and at the floor in the others.
\<close>

definition heldPress :: "ButtonFrame list" where
  "heldPress = [fingerFrame 0 0, fingerFrame 0 (- 0.02), fingerFrame 0 (- 0.02)]"

text \<open>
  A frame in which the hand adapter is present but has lost its tracking, and a frame
  in which neither side has a hand adapter.
\<close>

definition lostTrackingFrame :: "real \<Rightarrow> ButtonFrame" where
  "lostTrackingFrame meshY = buttonSceneFrame 0.016 [Some (untrackedHand 1 RightHand)] meshY"

definition noHandsFrame :: "real \<Rightarrow> ButtonFrame" where
  "noHandsFrame meshY = buttonSceneFrame 0.016 [None, None] meshY"


text \<open>
  The stick of the application: radius 0.03, return speed 5, at rest at the origin, in a
  world in which nothing has happened yet.
\<close>

definition restStick :: StickEntity where
  "restStick =
     \<lparr>se_index = 0,
      se_object3D = Some \<lparr>worldPosition = (0, 0, 0), rotation = (0, 0, 0)\<rparr>,
      se_grab = \<lparr>attached = False, justAttached = False, justDetached = False\<rparr>,
      se_analog = \<lparr>centerX = 0, centerY = 0, centerZ = 0, maxRadius = 0.03, stickX = 0,
                    stickY = 0, stickAngle = 0, stickMagnitude = 0, isActive = False,
                    returnSpeed = 5.0\<rparr>\<rparr>"

definition restWorld :: StickWorld where
  "restWorld =
     \<lparr>sticks = [restStick], attachedHands = Map.empty,
      handFlags = (\<lambda>_. \<lparr>justStartedSelecting = False, justStoppedSelecting = False\<rparr>),
      sg_xrInput = False, previousButtonStates = Map.empty, as_xrInput = False,
      initialPositions = Map.empty, initialRotations = Map.empty, grabbedHands = Map.empty,
      grabHandPositions = Map.empty\<rparr>"

text \<open>
  A frame in an XR session with the right hand (adapter 3) at \<open>p\<close> and its trigger
  pressed or not; the left side has no hand adapter.
\<close>

definition rightHandFrame :: "real \<Rightarrow> vec3 \<Rightarrow> bool \<Rightarrow> StickFrame" where
  "rightHandFrame delta p trigger =
     \<lparr>sf_delta = delta, sf_worldXrInput = True,
      sf_handAdapters = Some [None, Some (handAt 3 RightHand p)],
      sf_xrSession =
        Some [\<lparr>is_handedness = RightHand, is_hand = True, is_gamepad = Some trigger\<rparr>],
      sf_handObject = (\<lambda>i. handAt i RightHand p)\<rparr>"

text \<open>
  The world after the right hand has grabbed the stick at \<open>(0.05, 0, 0)\<close>, and after it has
  then moved 0.05 along \<open>x\<close>, beyond the radius: the spec's scenario B.
\<close>

definition grabbedWorld :: StickWorld where
  "grabbedWorld =
     \<lparr>sticks = [restStick\<lparr>se_grab := \<lparr>attached = True, justAttached = True,
                                         justDetached = False\<rparr>,
                           se_analog := (se_analog restStick)\<lparr>isActive := True\<rparr>\<rparr>],
      attachedHands = [0 \<mapsto> 3],
      handFlags = (\<lambda>_. \<lparr>justStartedSelecting = False, justStoppedSelecting = False\<rparr>)
          (3 := \<lparr>justStartedSelecting = True, justStoppedSelecting = False\<rparr>),
      sg_xrInput = True, previousButtonStates = [RightHand \<mapsto> True], as_xrInput = True,
      initialPositions = [0 \<mapsto> (0, 0, 0)], initialRotations = [0 \<mapsto> (0, 0, 0)],
      grabbedHands = [0 \<mapsto> 3], grabHandPositions = [0 \<mapsto> (0.05, 0, 0)]\<rparr>"

definition deflectedWorld :: StickWorld where
  "deflectedWorld =
     \<lparr>sticks = [restStick\<lparr>se_object3D := Some \<lparr>worldPosition = (0.03, 0, 0),
                                                  rotation = (0, 0, 0)\<rparr>,
                           se_grab := \<lparr>attached = True, justAttached = False,
                                         justDetached = False\<rparr>,
                           se_analog := (se_analog restStick)
                             \<lparr>stickX := 1, stickMagnitude := 1, isActive := True\<rparr>\<rparr>],
      attachedHands = [0 \<mapsto> 3],
      handFlags = (\<lambda>_. \<lparr>justStartedSelecting = False, justStoppedSelecting = False\<rparr>),
      sg_xrInput = True, previousButtonStates = [RightHand \<mapsto> True], as_xrInput = True,
      initialPositions = [0 \<mapsto> (0, 0, 0)], initialRotations = [0 \<mapsto> (0, 0, 0)],
      grabbedHands = [0 \<mapsto> 3], grabHandPositions = [0 \<mapsto> (0.05, 0, 0)]\<rparr>"

text \<open>
  Frames in which the trigger is released: an ordinary one of 0.016 seconds, one that
  comes after a stall of a whole second, and one outside of an XR session.
\<close>

definition releaseFrame :: StickFrame where
  "releaseFrame = rightHandFrame 0.016 (0.10, 0, 0) False"


definition noSessionFrame :: StickFrame where
  "noSessionFrame = (rightHandFrame 0.016 (0.10, 0, 0) False)\<lparr>sf_xrSession := None\<rparr>"

text \<open>A frame in which the right hand holds the trigger but none of its positions is known.\<close>

definition lostHandFrame :: StickFrame where
  "lostHandFrame =
     \<lparr>sf_delta = 0.016, sf_worldXrInput = True,
      sf_handAdapters = Some [None, Some (untrackedHand 3 RightHand)],
      sf_xrSession =
        Some [\<lparr>is_handedness = RightHand, is_hand = True, is_gamepad = Some True\<rparr>],
      sf_handObject = (\<lambda>i. untrackedHand i RightHand)\<rparr>"



text \<open>
  The right hand closes on the stick from 0.05 away. Both hands close on the stick in
  the same frame, the left one from 0.01 away and the right one from 0.05. The right
  hand pinches the air one unit away while the left hand waits at the stick.
\<close>

definition graspFrame :: StickFrame where
  "graspFrame = rightHandFrame 0.016 (0.05, 0, 0) True"




definition noSourceFrame :: StickFrame where
  "noSourceFrame = (rightHandFrame 0.016 (1, 0, 0) False)\<lparr>sf_xrSession := Some []\<rparr>"


text \<open>
  Frames of a finger tip that stays at the height \<open>fingerY\<close> while the button moves under
  it: each frame sees the mesh where the frame before has left it.
\<close>

fun steadyFinger :: "real \<Rightarrow> nat \<Rightarrow> ButtonEntity \<Rightarrow> (ButtonEntity \<times> bool) list" where
  "steadyFinger fingerY 0 e = []"
| "steadyFinger fingerY (Suc n) e =
     (let meshY = (case be_object3D e of Some m \<Rightarrow> position_y m | None \<Rightarrow> 0);
          r = buttonFrame False True (fingerFrame fingerY meshY) e
      in r # steadyFinger fingerY n (fst r))"

text \<open>Frames of a released stick, one after the other.\<close>

fun returnSteps ::
  "real \<Rightarrow> vec3 \<Rightarrow> vec3 \<Rightarrow> nat \<Rightarrow> AnalogStick \<times> StickMesh
     \<Rightarrow> AnalogStick \<times> StickMesh" where
  "returnSteps delta initialPos initialRot 0 s = s"
| "returnSteps delta initialPos initialRot (Suc n) s =
     returnSteps delta initialPos initialRot n
       (springReturn delta initialPos initialRot (fst s) (snd s))"


section \<open>Evaluating the examples\<close>

lemmas button_eval = buttonFrame_def updateButton_def pressingDistances_def
  handPressingDistance_def pointerPosition_def buttonSurfaceY_def pressMotion_def
  triggerAction_def collectHands_def expandByScalar_def containsPoint_def vx_def vy_def vz_def
  scenarioButton_def buttonSceneFrame_def fingerFrame_def handAt_def untrackedHand_def
  lostTrackingFrame_def Let_def

lemmas stick_eval = stickSystemsFrame_def StickGrabSystem_update_def
  AnalogStickSystem_update_def grabHands_def grabHand_def selectState_def findInputSource_def
  availableSticks_def grabStick_def stillSelecting_def stickHandPosition_def trackHand_def
  springReturn_def updateStick_def stickSlot_def putStickSlot_def analogStick_def
  collectHands_def distanceTo_def lerp_def Math_atan2_def vx_def vy_def vz_def handAt_def
  untrackedHand_def Let_def

lemmas stick_scene = restWorld_def restStick_def rightHandFrame_def grabbedWorld_def
  deflectedWorld_def


lemma sqrt_values:
  "sqrt (1 / 400) = 1 / 20" "sqrt (9 / 10000) = 3 / 100" "sqrt (9 / 625) = 3 / 25"
  "sqrt (1 / 10000) = 1 / 100"
  by (rule real_sqrt_unique; simp add: power2_eq_square)+

text \<open>The two example worlds are what the systems make of the world at rest.\<close>

lemma grabbedWorld_reached:
  "stickSystemsFrame (rightHandFrame 0.016 (0.05, 0, 0) True) restWorld = grabbedWorld"
  by (simp add: stick_eval stick_scene sqrt_values)

lemma deflectedWorld_reached:
  "stickSystemsFrame (rightHandFrame 0.016 (0.10, 0, 0) True) grabbedWorld = deflectedWorld"
  by (simp add: stick_eval stick_scene sqrt_values fun_eq_iff)

section \<open>The action of a button fires on the edge into the full press\<close>

lemma triggerAction_fired:
  "snd (triggerAction action b) \<longleftrightarrow>
     currState b = fully_pressed \<and> prevState b \<noteq> fully_pressed \<and> action \<and> \<not> actionTriggered b"
  by (simp add: triggerAction_def)

lemma triggerAction_currState: "currState (fst (triggerAction action b)) = currState b"
  by (simp add: triggerAction_def)

lemma triggerAction_flag:
  "actionTriggered (fst (triggerAction action b)) \<Longrightarrow> currState b = fully_pressed"
  by (simp add: triggerAction_def split: if_splits)

lemma updateButton_fired:
  assumes "actionTriggered b \<longrightarrow> currState b = fully_pressed"
  shows "snd (updateButton delta True box toLocal hands b m) \<longleftrightarrow>
           currState (fst (fst (updateButton delta True box toLocal hands b m))) = fully_pressed
           \<and> currState b \<noteq> fully_pressed"
  using assms
  by (auto simp add: updateButton_def Let_def case_prod_beta triggerAction_fired
        triggerAction_currState)

lemma updateButton_flag:
  "actionTriggered (fst (fst (updateButton delta action box toLocal hands b m))) \<Longrightarrow>
     currState (fst (fst (updateButton delta action box toLocal hands b m))) = fully_pressed"
  by (auto simp add: updateButton_def Let_def case_prod_beta triggerAction_currState
        dest: triggerAction_flag)

lemma buttonFrame_fired:
  assumes "triggerInv e"
  shows "snd (buttonFrame cached True fr e) \<longleftrightarrow>
           currState (be_button (fst (buttonFrame cached True fr e))) = fully_pressed
           \<and> currState (be_button e) \<noteq> fully_pressed"
  using assms updateButton_fired
  by (auto simp add: buttonFrame_def triggerInv_def Let_def case_prod_beta split: option.splits)

lemma buttonFrame_triggerInv:
  assumes "triggerInv e"
  shows "triggerInv (fst (buttonFrame cached action fr e))"
  using assms updateButton_flag
  by (auto simp add: buttonFrame_def triggerInv_def Let_def case_prod_beta split: option.splits)

lemma runButton_length: "length (runButton cached action frs e) = length frs"
  by (induction frs arbitrary: cached e) (simp_all add: Let_def)

lemma runButton_edge:
  assumes "triggerInv e" and "i < length frs"
  shows "snd (runButton cached True frs e ! i) \<longleftrightarrow>
           currState (be_button (fst (runButton cached True frs e ! i))) = fully_pressed
           \<and> currState (be_button ((e # map fst (runButton cached True frs e)) ! i))
               \<noteq> fully_pressed"
  using assms
proof (induction frs arbitrary: cached e i)
  case Nil
  then show ?case by simp
next
  case (Cons fr frs)
  show ?case
  proof (cases i)
    case 0
    then show ?thesis
      using buttonFrame_fired [OF Cons.prems(1)] by (simp add: Let_def)
  next
    case (Suc j)
    have inv': "triggerInv (fst (buttonFrame cached True fr e))"
      by (rule buttonFrame_triggerInv [OF Cons.prems(1)])
    have j: "j < length frs"
      using Cons.prems(2) Suc by simp
    show ?thesis
      using Cons.IH [OF inv' j] Suc by (simp add: Let_def)
  qed
qed

lemma runButton_hold:
  assumes inv: "triggerInv e"
    and start: "currState (be_button e) \<noteq> fully_pressed"
    and len: "0 < length frs"
    and held: "\<forall>r \<in> set (runButton cached True frs e).
                 currState (be_button (fst r)) = fully_pressed"
  shows "map snd (runButton cached True frs e) = True # replicate (length frs - 1) False"
proof (rule nth_equalityI)
  show "length (map snd (runButton cached True frs e))
          = length (True # replicate (length frs - 1) False)"
    using len by (simp add: runButton_length)
next
  fix i
  assume "i < length (map snd (runButton cached True frs e))"
  then have i: "i < length frs"
    by (simp add: runButton_length)
  have fp: "\<And>k. k < length frs \<Longrightarrow>
             currState (be_button (fst (runButton cached True frs e ! k))) = fully_pressed"
    using held by (simp add: runButton_length)
  show "map snd (runButton cached True frs e) ! i
          = (True # replicate (length frs - 1) False) ! i"
  proof (cases i)
    case 0
    then show ?thesis
      using runButton_edge [OF inv i] fp [OF i] start i by (simp add: runButton_length)
  next
    case (Suc j)
    then have "j < length frs" using i by simp
    then show ?thesis
      using runButton_edge [OF inv i] fp [of j] Suc i by (simp add: runButton_length)
  qed
qed

lemma runButton_triggerInv:
  assumes "triggerInv e" and "i < length frs"
  shows "triggerInv (fst (runButton cached action frs e ! i))"
  using assms
proof (induction frs arbitrary: cached e i)
  case Nil
  then show ?case by simp
next
  case (Cons fr frs)
  have inv': "triggerInv (fst (buttonFrame cached action fr e))"
    by (rule buttonFrame_triggerInv [OF Cons.prems(1)])
  show ?case
  proof (cases i)
    case 0
    then show ?thesis using inv' by (simp add: Let_def)
  next
    case (Suc j)
    then have "j < length frs" using Cons.prems(2) by simp
    from Cons.IH [OF inv' this] show ?thesis
      using Suc by (simp add: Let_def)
  qed
qed

text \<open>
  What the flag does in every run of frames of a button with a registered action, from a
  state in which the flag is not set without the full press. In each frame the action is
  called exactly when the button is fully pressed after the frame and was not before it.
  As long as the state stays \<open>fully_pressed\<close> from one frame to the next, the action is
  called in the first of these frames and in no other. Whenever the state is not
  \<open>fully_pressed\<close> the flag is clear, also when the state is \<open>pressed\<close>.
\<close>

lemma action_fires_on_edge:
  assumes "triggerInv e"
  shows "(\<forall>i < length frs.
            snd (runButton cached True frs e ! i) \<longleftrightarrow>
              currState (be_button (fst (runButton cached True frs e ! i))) = fully_pressed
              \<and> currState (be_button ((e # map fst (runButton cached True frs e)) ! i))
                  \<noteq> fully_pressed)
         \<and> (currState (be_button e) \<noteq> fully_pressed \<and> 1 < length frs
              \<and> (\<forall>r \<in> set (runButton cached True frs e).
                    currState (be_button (fst r)) = fully_pressed)
            \<longrightarrow> map snd (runButton cached True frs e)
                  = True # replicate (length frs - 1) False)
         \<and> (\<forall>i < length frs.
              currState (be_button (fst (runButton cached True frs e ! i))) \<noteq> fully_pressed
              \<longrightarrow> \<not> actionTriggered (be_button (fst (runButton cached True frs e ! i))))"
proof (intro conjI allI impI)
  fix i
  assume "i < length frs"
  then show "snd (runButton cached True frs e ! i) \<longleftrightarrow>
      currState (be_button (fst (runButton cached True frs e ! i))) = fully_pressed
      \<and> currState (be_button ((e # map fst (runButton cached True frs e)) ! i))
          \<noteq> fully_pressed"
    by (rule runButton_edge [OF assms])
next
  assume h: "currState (be_button e) \<noteq> fully_pressed \<and> 1 < length frs
      \<and> (\<forall>r \<in> set (runButton cached True frs e).
            currState (be_button (fst r)) = fully_pressed)"
  then have "0 < length frs" by auto
  with h show "map snd (runButton cached True frs e) = True # replicate (length frs - 1) False"
    using runButton_hold [OF assms, of frs cached] by blast
next
  fix i
  assume "i < length frs"
    and "currState (be_button (fst (runButton cached True frs e ! i))) \<noteq> fully_pressed"
  then show "\<not> actionTriggered (be_button (fst (runButton cached True frs e ! i)))"
    using runButton_triggerInv [OF assms, of i frs cached True]
    by (auto simp add: triggerInv_def)
qed

lemma deep_hold_fires_once:
  "triggerInv (scenarioButton resting 0)
   \<and> currState (be_button (scenarioButton resting 0)) \<noteq> fully_pressed
   \<and> 1 < length heldPress
   \<and> map (\<lambda>r. currState (be_button (fst r)))
         (runButton False True heldPress (scenarioButton resting 0))
       = [fully_pressed, fully_pressed, fully_pressed]
   \<and> map snd (runButton False True heldPress (scenarioButton resting 0))
       = [True, False, False]"
proof -
  have inv: "triggerInv (scenarioButton resting 0)"
    by (simp add: triggerInv_def scenarioButton_def)
  have states: "map (\<lambda>r. currState (be_button (fst r)))
                  (runButton False True heldPress (scenarioButton resting 0))
                = [fully_pressed, fully_pressed, fully_pressed]"
    by (simp add: button_eval heldPress_def)
  have held: "\<forall>r \<in> set (runButton False True heldPress (scenarioButton resting 0)).
                currState (be_button (fst r)) = fully_pressed"
    by (simp add: button_eval heldPress_def)
  have start: "currState (be_button (scenarioButton resting 0)) \<noteq> fully_pressed"
    by (simp add: scenarioButton_def)
  have len: "length heldPress = 3"
    by (simp add: heldPress_def)
  show ?thesis
    using action_fires_on_edge [OF inv, of heldPress False] inv held start len states
    by (simp add: numeral_3_eq_3)
qed


text \<open>
  A press keeps the button fully pressed as long as the deepest distance recorded in
  each frame reaches the full press distance.
\<close>

lemma fold_max_ge: "d \<le> fold max ds (d::real)"
proof (induction ds arbitrary: d)
  case Nil
  then show ?case by simp
next
  case (Cons x xs)
  have "d \<le> max x d" by simp
  also have "\<dots> \<le> fold max xs (max x d)" by (rule Cons.IH)
  finally show ?case by simp
qed

lemma fold_max_mono: "(a::real) \<le> b \<Longrightarrow> fold max ds a \<le> fold max ds b"
  by (induction ds arbitrary: a b) (simp_all add: max.mono)

lemma fold_max_mem: "x \<in> set ds \<Longrightarrow> x \<le> fold max ds (d::real)"
proof (induction ds arbitrary: d)
  case Nil
  then show ?case by simp
next
  case (Cons y ys)
  show ?case
  proof (cases "x = y")
    case True
    have "x \<le> max y d" using True by simp
    also have "\<dots> \<le> fold max ys (max y d)" by (rule fold_max_ge)
    finally show ?thesis by simp
  next
    case False
    then have "x \<in> set ys" using Cons.prems by simp
    then show ?thesis using Cons.IH by simp
  qed
qed

lemma deep_press_is_full:
  assumes "d \<in> set ds" and "fullPress \<le> d" and "0 < fullPress"
  shows "pressMotion delta rY rSpeed fullPress ds y = (fully_pressed, rY - fullPress)"
proof (cases ds)
  case Nil
  with assms show ?thesis by simp
next
  case (Cons x xs)
  have "d \<le> fold max xs x"
    using assms(1) Cons fold_max_ge [of x xs] fold_max_mem [of d xs x] by auto
  then have "fullPress \<le> fold max xs x" and "0 < fold max xs x"
    using assms by linarith+
  then show ?thesis
    using Cons by (simp add: pressMotion_def Let_def max_def)
qed

text \<open>
  Claim C1 fails for a finger that is held still. The press distance is measured in the
  local frame of the mesh, which moves down with the button, while the new height is
  \<open>restingY - maxPressingDistance\<close>, counted from the resting height and not from the
  height the mesh has (the comment at this line reads: move button down by the pressing
  distance). A finger tip that stays 0.03 below the surface of the button at rest, deeper
  than the full press distance 0.02, is pressing in every frame: the distances of the
  three frames are 0.03, 0.01 and 0.02. The mesh goes to the floor, comes up by half and
  goes to the floor again; the state is \<open>fully_pressed\<close>, \<open>pressed\<close>, \<open>fully_pressed\<close>. The
  flag is cleared in the second frame, where the button is still pressed and not released
  (the comment at this line reads: reset action trigger when button is released), and the
  action is called in the first frame and again in the third, within one press.
\<close>

theorem held_finger_fires_again:
  "map (\<lambda>y. pressingDistances (bf_box (fingerFrame 0.02 y) 0)
              (bf_worldToLocal (fingerFrame 0.02 y) 0) (be_button (scenarioButton resting y))
              \<lparr>position_y = y, geometryTopY = None\<rparr> [handAt 1 RightHand (0, 0.02, 0)])
     [0, - 0.02, - 0.01]
     = [[0.03], [0.01], [0.02]]
   \<and> map (\<lambda>r. be_object3D (fst r))
        (steadyFinger 0.02 (Suc (Suc (Suc 0))) (scenarioButton resting 0))
     = [Some \<lparr>position_y = - 0.02, geometryTopY = None\<rparr>,
        Some \<lparr>position_y = - 0.01, geometryTopY = None\<rparr>,
        Some \<lparr>position_y = - 0.02, geometryTopY = None\<rparr>]
   \<and> map (\<lambda>r. (currState (be_button (fst r)), snd r))
        (steadyFinger 0.02 (Suc (Suc (Suc 0))) (scenarioButton resting 0))
     = [(fully_pressed, True), (pressed, False), (fully_pressed, True)]"
  by (simp add: button_eval)


section \<open>The height of a button stays near its range\<close>

lemma pressMotion_lower:
  assumes "0 \<le> fullPress" and "0 \<le> rSpeed * delta" and "ds = [] \<longrightarrow> rY - fullPress \<le> y"
  shows "rY - fullPress \<le> snd (pressMotion delta rY rSpeed fullPress ds y)"
  using assms by (auto simp add: pressMotion_def Let_def split: list.splits)

lemma pressMotion_upper:
  assumes "0 \<le> fullPress" and "rSpeed * delta \<le> slack" and "0 \<le> slack"
    and "y \<le> rY + slack"
  shows "snd (pressMotion delta rY rSpeed fullPress ds y) \<le> rY + slack"
  using assms by (auto simp add: pressMotion_def Let_def split: list.splits)

lemma updateButton_parts:
  "restingY (fst (fst (updateButton delta action box toLocal hands b m)))
     = (if restingY b < 0 then position_y m else restingY b)"
  "fullPressDistance (fst (fst (updateButton delta action box toLocal hands b m)))
     = fullPressDistance b"
  "recoverySpeed (fst (fst (updateButton delta action box toLocal hands b m)))
     = recoverySpeed b"
  by (auto simp add: updateButton_def Let_def case_prod_beta triggerAction_def)

lemma updateButton_position:
  "position_y (snd (fst (updateButton delta action box toLocal hands b m)))
     = snd (pressMotion delta (if restingY b < 0 then position_y m else restingY b)
              (recoverySpeed b) (fullPressDistance b)
              (pressingDistances box toLocal
                 ((if restingY b < 0 then b\<lparr>restingY := position_y m\<rparr> else b)
                    \<lparr>prevState := currState b, currState := resting\<rparr>) m hands)
              (position_y m))"
  by (auto simp add: updateButton_def Let_def case_prod_beta)

text \<open>
  After a frame that reaches the loop body the height is in the range outright, also for
  a resting height that was captured in this very frame.
\<close>

lemma updateButton_within:
  assumes "0 \<le> fullPressDistance b" and "0 \<le> recoverySpeed b * delta"
    and "recoverySpeed b * delta \<le> slack"
    and "restingY b < 0 \<or> (restingY b - fullPressDistance b \<le> position_y m
                              \<and> position_y m \<le> restingY b + slack)"
  shows "restingY (fst (fst (updateButton delta action box toLocal hands b m)))
           - fullPressDistance (fst (fst (updateButton delta action box toLocal hands b m)))
         \<le> position_y (snd (fst (updateButton delta action box toLocal hands b m)))
       \<and> position_y (snd (fst (updateButton delta action box toLocal hands b m)))
         \<le> restingY (fst (fst (updateButton delta action box toLocal hands b m))) + slack"
proof -
  have slack: "0 \<le> slack" using assms by linarith
  let ?rY = "if restingY b < 0 then position_y m else restingY b"
  have lo: "?rY - fullPressDistance b \<le> position_y m"
    using assms by auto
  have hi: "position_y m \<le> ?rY + slack"
    using assms slack by auto
  show ?thesis
    unfolding updateButton_parts updateButton_position
    using pressMotion_lower [OF assms(1) assms(2), of _ ?rY "position_y m"]
      pressMotion_upper [OF assms(1) assms(3) slack hi] lo
    by blast
qed

text \<open>
  Claim C2, as the code has it. With a full press distance and a recovery step
  \<open>recoverySpeed * delta\<close> that are not negative, a frame keeps the height of a button
  between the floor \<open>restingY - fullPressDistance\<close> and \<open>restingY + slack\<close>, for every
  \<open>slack\<close> that is at least the recovery step. The press is clamped at the floor; the
  recovery step is not clamped at \<open>restingY\<close>.
\<close>

theorem offset_within_one_recovery_step:
  assumes "0 \<le> fullPressDistance (be_button e)"
    and "0 \<le> recoverySpeed (be_button e) * bf_delta fr"
    and "recoverySpeed (be_button e) * bf_delta fr \<le> slack"
    and "offsetWithin slack e"
  shows "offsetWithin slack (fst (buttonFrame cached action fr e))"
  using assms updateButton_within [of "be_button e" "bf_delta fr" slack]
  by (auto simp add: buttonFrame_def offsetWithin_def Let_def case_prod_beta
        split: option.splits)

theorem offset_within_one_recovery_step_witness:
  "0 \<le> fullPressDistance (be_button (scenarioButton recovering (- 0.001)))
   \<and> 0 \<le> recoverySpeed (be_button (scenarioButton recovering (- 0.001)))
          * bf_delta (lostTrackingFrame (- 0.001))
   \<and> recoverySpeed (be_button (scenarioButton recovering (- 0.001)))
          * bf_delta (lostTrackingFrame (- 0.001)) \<le> 0.0064
   \<and> offsetWithin 0.0064 (scenarioButton recovering (- 0.001))
   \<and> offsetWithin 0.0064
        (fst (buttonFrame False True (lostTrackingFrame (- 0.001))
                (scenarioButton recovering (- 0.001))))"
proof -
  have a: "0 \<le> fullPressDistance (be_button (scenarioButton recovering (- 0.001)))"
    by (simp add: scenarioButton_def)
  have b: "0 \<le> recoverySpeed (be_button (scenarioButton recovering (- 0.001)))
                 * bf_delta (lostTrackingFrame (- 0.001))"
    by (simp add: scenarioButton_def lostTrackingFrame_def buttonSceneFrame_def)
  have c: "recoverySpeed (be_button (scenarioButton recovering (- 0.001)))
             * bf_delta (lostTrackingFrame (- 0.001)) \<le> 0.0064"
    by (simp add: scenarioButton_def lostTrackingFrame_def buttonSceneFrame_def)
  have d: "offsetWithin 0.0064 (scenarioButton recovering (- 0.001))"
    by (simp add: offsetWithin_def scenarioButton_def)
  show ?thesis
    using offset_within_one_recovery_step [OF a b c d, of False True] a b c d by simp
qed

text \<open>
  The claim as the spec states it is the case \<open>slack = 0\<close>, and it fails: a button
  0.001 below its resting height that recovers for a frame of 0.016 at speed 0.4 ends
  the frame at 0.0054, above its resting height 0.
\<close>

theorem recovery_overshoots_resting:
  "offsetWithin 0 (scenarioButton recovering (- 0.001))
   \<and> \<not> offsetWithin 0
        (fst (buttonFrame False True (lostTrackingFrame (- 0.001))
                (scenarioButton recovering (- 0.001))))
   \<and> be_object3D (fst (buttonFrame False True (lostTrackingFrame (- 0.001))
                (scenarioButton recovering (- 0.001))))
       = Some \<lparr>position_y = 0.0054, geometryTopY = None\<rparr>"
  by (simp add: offsetWithin_def button_eval)


section \<open>A touch at the surface already counts as a press\<close>












section \<open>Frames without tracking data\<close>

text \<open>
  When the hand adapters are there but no finger tip can be resolved, nothing is pushed
  onto \<open>pressingDistances\<close> and the button recovers or rests.
\<close>

lemma no_hands_frame_unchanged:
  "bf_handAdapters fr = Some adapters \<Longrightarrow> collectHands adapters = [] \<Longrightarrow>
     buttonFrame cached action fr e = (e, False)"
  by (simp add: buttonFrame_def)

lemma untracked_pressingDistances:
  "\<forall>h \<in> set hands. pointerPosition h = None \<Longrightarrow> pressingDistances box toLocal b m hands = []"
  unfolding pressingDistances_def
  by (induction hands) (simp_all add: handPressingDistance_def)

lemma untracked_frame_releases:
  assumes "cached \<or> bf_worldXrInput fr" "bf_xrSession fr" "bf_handAdapters fr = Some adapters"
    and "collectHands adapters \<noteq> []" "be_object3D e = Some m"
    and "\<forall>h \<in> set (collectHands adapters). pointerPosition h = None"
    and "0 \<le> restingY (be_button e)"
  shows "currState (be_button (fst (buttonFrame cached action fr e)))
           = (if position_y m < restingY (be_button e) then recovering else resting)
       \<and> be_object3D (fst (buttonFrame cached action fr e))
           = Some (m\<lparr>position_y :=
                (if position_y m < restingY (be_button e)
                 then position_y m + recoverySpeed (be_button e) * bf_delta fr
                 else restingY (be_button e))\<rparr>)"
  using assms
  by (simp add: buttonFrame_def updateButton_def Let_def case_prod_beta
        untracked_pressingDistances pressMotion_def triggerAction_def)

text \<open>
  From the floor of the full press such frames bring the button back to rest: with the
  recovery step 0.0064 of a frame of 0.016 it recovers for four frames and rests in the
  fifth.
\<close>

lemma lost_tracking_recovers:
  "map (\<lambda>r. currState (be_button (fst r)))
     (runButton False True
        [lostTrackingFrame (- 0.02), lostTrackingFrame (- 0.0136), lostTrackingFrame (- 0.0072),
         lostTrackingFrame (- 0.0008), lostTrackingFrame 0.0056]
        (scenarioButton fully_pressed (- 0.02)))
     = [recovering, recovering, recovering, recovering, resting]"
  by (simp add: button_eval)

text \<open>
  Claim C6 fails when no hand adapter is present at all: the update returns before the
  loop, so a button that is fully pressed stays fully pressed at the floor, frame after
  frame, and \<^verbatim>\<open>getButtonState\<close> keeps reporting it as down.
\<close>

theorem no_hands_freeze_pressed_button:
  "map fst (runButton False True
              [noHandsFrame (- 0.02), noHandsFrame (- 0.02), noHandsFrame (- 0.02)]
              (scenarioButton fully_pressed (- 0.02)))
     = [scenarioButton fully_pressed (- 0.02), scenarioButton fully_pressed (- 0.02),
        scenarioButton fully_pressed (- 0.02)]
   \<and> currState (be_button (scenarioButton fully_pressed (- 0.02))) = fully_pressed
   \<and> be_object3D (scenarioButton fully_pressed (- 0.02))
       = Some \<lparr>position_y = - 0.02, geometryTopY = None\<rparr>
   \<and> getButtonState (Some (scenarioButton fully_pressed (- 0.02)))"
  by (simp add: button_eval noHandsFrame_def getButtonState_def)


section \<open>An attached stick whose hand cannot be located\<close>

lemma updateStick_unresolved:
  assumes "attached g" and "owner = Some h" and "stickHandPosition h = None"
  shows "published (fst (snd (updateStick delta owner g sl a m))) = published a
       \<and> snd (snd (updateStick delta owner g sl a m)) = m"
  using assms by (simp add: updateStick_def Let_def published_def)

lemma analogStick_unresolved:
  assumes "attached (se_grab e)" and "attachedHands w (se_index e) = Some hid"
    and "stickHandPosition (sf_handObject fr hid) = None"
  shows "published (se_analog (fst (analogStick fr e w))) = published (se_analog e)
       \<and> se_object3D (fst (analogStick fr e w)) = se_object3D e"
  using assms updateStick_unresolved [of "se_grab e" "Some (sf_handObject fr hid)" "sf_handObject fr hid"]
  by (simp add: analogStick_def Let_def split: option.splits)

lemma analogStick_attachedHands: "attachedHands (snd (analogStick fr e w)) = attachedHands w"
  by (simp add: analogStick_def putStickSlot_def Let_def split: option.splits)

lemma analogSticks_length: "length (fst (analogSticks fr es w)) = length es"
  by (induction es arbitrary: w) (simp_all add: Let_def)

lemma analogSticks_nth:
  "i < length es \<Longrightarrow>
     \<exists>w'. attachedHands w' = attachedHands w
          \<and> fst (analogSticks fr es w) ! i = fst (analogStick fr (es ! i) w')"
proof (induction es arbitrary: i w)
  case Nil
  then show ?case by simp
next
  case (Cons e es)
  show ?case
  proof (cases i)
    case 0
    then show ?thesis by (auto simp add: Let_def)
  next
    case (Suc j)
    then have "j < length es" using Cons.prems by simp
    from Cons.IH [OF this, of "snd (analogStick fr e w)"]
    obtain w' where "attachedHands w' = attachedHands (snd (analogStick fr e w))"
      and "fst (analogSticks fr es (snd (analogStick fr e w))) ! j = fst (analogStick fr (es ! j) w')"
      by blast
    then show ?thesis
      using Suc by (auto simp add: Let_def analogStick_attachedHands)
  qed
qed

text \<open>
  Claim C10. When a stick is attached and none of the three lookups of its owner's
  position succeeds (grip space, index finger tip, ray space), the update leaves the
  published fields \<open>stickX\<close>, \<open>stickY\<close>, \<open>stickAngle\<close>, \<open>stickMagnitude\<close> and \<open>isActive\<close> and
  the mesh of the stick as they were: the axis does not decay.
\<close>

theorem unresolved_hand_keeps_axis:
  assumes "i < length (sticks w)"
    and "attached (se_grab (sticks w ! i))"
    and "attachedHands w (se_index (sticks w ! i)) = Some hid"
    and "stickHandPosition (sf_handObject fr hid) = None"
  shows "published (se_analog (sticks (AnalogStickSystem_update fr w) ! i))
           = published (se_analog (sticks w ! i))
       \<and> se_object3D (sticks (AnalogStickSystem_update fr w) ! i) = se_object3D (sticks w ! i)"
proof (cases "(as_xrInput w \<or> sf_worldXrInput fr) \<and> sf_handAdapters fr \<noteq> None")
  case False
  then show ?thesis
    by (auto simp add: AnalogStickSystem_update_def)
next
  case True
  obtain w' where w': "attachedHands w' = attachedHands (w\<lparr>as_xrInput := True\<rparr>)"
    and nth: "fst (analogSticks fr (sticks w) (w\<lparr>as_xrInput := True\<rparr>)) ! i
                = fst (analogStick fr (sticks w ! i) w')"
    using analogSticks_nth [OF assms(1)] by blast
  have "attachedHands w' (se_index (sticks w ! i)) = Some hid"
    using w' assms(3) by simp
  from analogStick_unresolved [OF assms(2) this assms(4)]
  show ?thesis
    using True nth by (auto simp add: AnalogStickSystem_update_def Let_def)
qed

theorem unresolved_hand_keeps_axis_witness:
  "0 < length (sticks deflectedWorld)
   \<and> attached (se_grab (sticks deflectedWorld ! 0))
   \<and> attachedHands deflectedWorld (se_index (sticks deflectedWorld ! 0)) = Some 3
   \<and> stickHandPosition (sf_handObject lostHandFrame 3) = None
   \<and> published (se_analog (sticks (AnalogStickSystem_update lostHandFrame deflectedWorld) ! 0))
       = (1, 0, 0, 1, True)
   \<and> se_object3D (sticks (AnalogStickSystem_update lostHandFrame deflectedWorld) ! 0)
       = Some \<lparr>worldPosition = (0.03, 0, 0), rotation = (0, 0, 0)\<rparr>"
proof -
  have a: "0 < length (sticks deflectedWorld)"
    by (simp add: stick_scene)
  have b: "attached (se_grab (sticks deflectedWorld ! 0))"
    by (simp add: stick_scene)
  have c: "attachedHands deflectedWorld (se_index (sticks deflectedWorld ! 0)) = Some 3"
    by (simp add: stick_scene)
  have d: "stickHandPosition (sf_handObject lostHandFrame 3) = None"
    by (simp add: lostHandFrame_def stickHandPosition_def untrackedHand_def)
  have e: "published (se_analog (sticks deflectedWorld ! 0)) = (1, 0, 0, 1, True)"
    by (simp add: stick_scene published_def)
  have f: "se_object3D (sticks deflectedWorld ! 0)
             = Some \<lparr>worldPosition = (0.03, 0, 0), rotation = (0, 0, 0)\<rparr>"
    by (simp add: stick_scene)
  show ?thesis
    using unresolved_hand_keeps_axis [OF a b c d] a b c d e f by simp
qed


section \<open>The return of a released stick\<close>

lemma lerp_distance: "distanceTo (lerp c i t) i = \<bar>1 - t\<bar> * distanceTo c i"
proof -
  have "(vx (lerp c i t) - vx i) * (vx (lerp c i t) - vx i)
        + (vy (lerp c i t) - vy i) * (vy (lerp c i t) - vy i)
        + (vz (lerp c i t) - vz i) * (vz (lerp c i t) - vz i)
      = ((1 - t) * (1 - t)) * ((vx c - vx i) * (vx c - vx i) + (vy c - vy i) * (vy c - vy i)
          + (vz c - vz i) * (vz c - vz i))"
    by (simp add: lerp_def vx_def vy_def vz_def algebra_simps)
  then show ?thesis
    by (simp add: distanceTo_def real_sqrt_mult)
qed

lemma distanceTo_self: "distanceTo p p = 0"
  by (simp add: distanceTo_def)

lemma distanceTo_nonneg: "0 \<le> distanceTo a b"
  by (simp add: distanceTo_def)

lemma springReturn_distance:
  "distanceTo (worldPosition (snd (springReturn delta initialPos initialRot a m))) initialPos
     = (if distanceTo (worldPosition m) initialPos > 0.001
        then \<bar>1 - returnSpeed a * delta\<bar> * distanceTo (worldPosition m) initialPos
        else 0)"
  by (simp add: springReturn_def Let_def lerp_distance distanceTo_self)

lemma springReturn_contracts:
  assumes "0 \<le> returnSpeed a * delta" and "returnSpeed a * delta \<le> 2"
  shows "distanceTo (worldPosition (snd (springReturn delta initialPos initialRot a m))) initialPos
           \<le> distanceTo (worldPosition m) initialPos"
proof -
  have "\<bar>1 - returnSpeed a * delta\<bar> \<le> 1"
    using assms by (simp add: abs_le_iff)
  then have "\<bar>1 - returnSpeed a * delta\<bar> * distanceTo (worldPosition m) initialPos
      \<le> 1 * distanceTo (worldPosition m) initialPos"
    using distanceTo_nonneg by (rule mult_right_mono)
  then show ?thesis
    using distanceTo_nonneg [of "worldPosition m" initialPos]
    by (simp add: springReturn_distance)
qed

text \<open>
  Over \<open>n\<close> frames of the same length the distance shrinks at least by the factor
  \<open>\<bar>1 - returnSpeed * delta\<bar> ^ n\<close>, which tends to 0 when \<open>0 < returnSpeed * delta < 2\<close>.
\<close>

lemma springReturn_returnSpeed:
  "returnSpeed (fst (springReturn delta initialPos initialRot a m)) = returnSpeed a"
  by (simp add: springReturn_def Let_def)

lemma springReturn_bound:
  "distanceTo (worldPosition (snd (springReturn delta initialPos initialRot a m))) initialPos
     \<le> \<bar>1 - returnSpeed a * delta\<bar> * distanceTo (worldPosition m) initialPos"
  using distanceTo_nonneg [of "worldPosition m" initialPos]
  by (simp add: springReturn_distance)

lemma returnSteps_bound:
  "distanceTo (worldPosition (snd (returnSteps delta initialPos initialRot n (a, m)))) initialPos
     \<le> \<bar>1 - returnSpeed a * delta\<bar> ^ n * distanceTo (worldPosition m) initialPos
   \<and> returnSpeed (fst (returnSteps delta initialPos initialRot n (a, m))) = returnSpeed a"
proof (induction n arbitrary: a m)
  case 0
  then show ?case by simp
next
  case (Suc n)
  let ?s = "springReturn delta initialPos initialRot a m"
  let ?q = "\<bar>1 - returnSpeed a * delta\<bar>"
  have ih: "distanceTo (worldPosition (snd (returnSteps delta initialPos initialRot n (fst ?s, snd ?s)))) initialPos
      \<le> ?q ^ n * distanceTo (worldPosition (snd ?s)) initialPos"
    and rs: "returnSpeed (fst (returnSteps delta initialPos initialRot n (fst ?s, snd ?s))) = returnSpeed a"
    using Suc.IH [of "fst ?s" "snd ?s"] by (simp_all add: springReturn_returnSpeed)
  have "?q ^ n * distanceTo (worldPosition (snd ?s)) initialPos
      \<le> ?q ^ n * (?q * distanceTo (worldPosition m) initialPos)"
    by (rule mult_left_mono [OF springReturn_bound]) simp
  with ih have "distanceTo (worldPosition (snd (returnSteps delta initialPos initialRot n (fst ?s, snd ?s)))) initialPos
      \<le> ?q ^ n * (?q * distanceTo (worldPosition m) initialPos)"
    by (rule order_trans)
  also have "\<dots> = ?q ^ Suc n * distanceTo (worldPosition m) initialPos"
    by simp
  finally show ?case
    using rs by simp
qed



section \<open>The axis values\<close>

lemma trackHand_axes:
  "- 1 \<le> stickX (fst (trackHand handPosition grabHandPos initialPos initialRot a m))"
  "stickX (fst (trackHand handPosition grabHandPos initialPos initialRot a m)) \<le> 1"
  "- 1 \<le> stickY (fst (trackHand handPosition grabHandPos initialPos initialRot a m))"
  "stickY (fst (trackHand handPosition grabHandPos initialPos initialRot a m)) \<le> 1"
  by (simp_all add: trackHand_def Let_def)

lemma trackHand_magnitude:
  assumes "0 < maxRadius a"
  shows "stickMagnitude (fst (trackHand handPosition grabHandPos initialPos initialRot a m))
           = max 0 (min 1 (sqrt ((vx handPosition - vx grabHandPos) * (vx handPosition - vx grabHandPos)
                             + (vz handPosition - vz grabHandPos) * (vz handPosition - vz grabHandPos))
                           / maxRadius a))"
proof -
  have "0 \<le> sqrt ((vx handPosition - vx grabHandPos) * (vx handPosition - vx grabHandPos)
                             + (vz handPosition - vz grabHandPos) * (vz handPosition - vz grabHandPos))
                           / maxRadius a"
    using assms by simp
  then show ?thesis
    by (simp add: trackHand_def Let_def min_def max_def)
qed

lemma springReturn_magnitude:
  assumes "0 < maxRadius a" and "distanceTo (worldPosition m) initialPos > 0.001"
  shows "stickMagnitude (fst (springReturn delta initialPos initialRot a m))
           = max 0 (min 1 (sqrt ((vx (worldPosition m) - vx initialPos) * (vx (worldPosition m) - vx initialPos)
                             + (vz (worldPosition m) - vz initialPos) * (vz (worldPosition m) - vz initialPos))
                           / maxRadius a))"
proof -
  have "0 \<le> sqrt ((vx (worldPosition m) - vx initialPos) * (vx (worldPosition m) - vx initialPos)
                             + (vz (worldPosition m) - vz initialPos) * (vz (worldPosition m) - vz initialPos))
                           / maxRadius a"
    using assms by simp
  then show ?thesis
    using assms(2) by (simp add: springReturn_def Let_def min_def max_def)
qed

text \<open>
  The branch of a released stick does not clamp the axes; they are in range as long as
  the stick is within \<open>maxRadius\<close> of its centre in the plane.
\<close>

lemma springReturn_axes:
  assumes "0 < maxRadius a"
    and "sqrt ((vx (worldPosition m) - vx initialPos) * (vx (worldPosition m) - vx initialPos)
           + (vz (worldPosition m) - vz initialPos) * (vz (worldPosition m) - vz initialPos))
         \<le> maxRadius a"
  shows "\<bar>stickX (fst (springReturn delta initialPos initialRot a m))\<bar> \<le> 1"
    and "\<bar>stickY (fst (springReturn delta initialPos initialRot a m))\<bar> \<le> 1"
proof -
  let ?dx = "vx (worldPosition m) - vx initialPos"
  let ?dz = "vz (worldPosition m) - vz initialPos"
  have "\<bar>?dx\<bar> = sqrt (?dx * ?dx)" by simp
  also have "\<dots> \<le> sqrt (?dx * ?dx + ?dz * ?dz)"
    by (rule real_sqrt_le_mono) simp
  finally have x: "\<bar>?dx\<bar> \<le> maxRadius a" using assms(2) by linarith
  have "\<bar>?dz\<bar> = sqrt (?dz * ?dz)" by simp
  also have "\<dots> \<le> sqrt (?dx * ?dx + ?dz * ?dz)"
    by (rule real_sqrt_le_mono) simp
  finally have z: "\<bar>?dz\<bar> \<le> maxRadius a" using assms(2) by linarith
  have x': "\<bar>?dx / maxRadius a\<bar> \<le> 1" using x assms(1) by simp
  have z': "\<bar>?dz / maxRadius a\<bar> \<le> 1" using z assms(1) by simp
  show "\<bar>stickX (fst (springReturn delta initialPos initialRot a m))\<bar> \<le> 1"
    using x' by (simp add: springReturn_def Let_def)
  show "\<bar>stickY (fst (springReturn delta initialPos initialRot a m))\<bar> \<le> 1"
    using z' by (simp add: springReturn_def Let_def)
qed



section \<open>The pulses of attaching and detaching\<close>

text \<open>
  In a frame that reaches the loop over the sticks, each pulse is set exactly when the
  stick changes from not attached to attached, or back.
\<close>

lemma grabStick_pulses:
  assumes "se_object3D e \<noteq> None"
  shows "justAttached (se_grab (fst (grabStick sources handObject attachMap flags e owners)))
           = (\<not> attached (se_grab e)
              \<and> attached (se_grab (fst (grabStick sources handObject attachMap flags e owners))))"
    and "justDetached (se_grab (fst (grabStick sources handObject attachMap flags e owners)))
           = (attached (se_grab e)
              \<and> \<not> attached (se_grab (fst (grabStick sources handObject attachMap flags e owners))))"
  using assms by (auto simp add: grabStick_def Let_def split: option.splits)

text \<open>The two pulses are never both set, in whatever frame.\<close>

lemma grabStick_exclusive:
  "pulsesExclusive e \<Longrightarrow>
     pulsesExclusive (fst (grabStick sources handObject attachMap flags e owners))"
  by (auto simp add: pulsesExclusive_def grabStick_def Let_def split: option.splits)

lemma grabSticks_exclusive:
  "\<forall>e \<in> set es. pulsesExclusive e \<Longrightarrow>
     \<forall>e \<in> set (fst (grabSticks sources handObject attachMap flags es owners)).
        pulsesExclusive e"
  by (induction es arbitrary: owners) (simp_all add: Let_def grabStick_exclusive)

lemma StickGrabSystem_update_exclusive:
  assumes "\<forall>e \<in> set (sticks w). pulsesExclusive e"
  shows "\<forall>e \<in> set (sticks (StickGrabSystem_update fr w)). pulsesExclusive e"
  using assms grabSticks_exclusive [OF assms]
  by (simp add: StickGrabSystem_update_def Let_def split: option.splits)

text \<open>
  Claim C7 fails outside of an XR session. The update returns before the loop that
  clears the pulses, so a pulse set in the last frame of a session stays set: after the
  release \<open>justDetached\<close> is true, and it is still true one and two frames later, in
  which nothing is detached.
\<close>

theorem pulse_outlives_its_frame:
  "map (\<lambda>e. justDetached (se_grab e)) (sticks (stickSystemsFrame releaseFrame deflectedWorld))
     = [True]
   \<and> map (\<lambda>e. justDetached (se_grab e))
        (sticks (fold stickSystemsFrame [releaseFrame, noSessionFrame] deflectedWorld))
     = [True]
   \<and> map (\<lambda>e. justDetached (se_grab e))
        (sticks (fold stickSystemsFrame [releaseFrame, noSessionFrame, noSessionFrame]
                   deflectedWorld))
     = [True]"
  by (simp add: stick_eval stick_scene releaseFrame_def noSessionFrame_def sqrt_values)


section \<open>Which hand a free stick attaches to\<close>




















lemma grabSticks_length:
  "length (fst (grabSticks sources handObject attachMap flags es owners)) = length es"
  by (induction es arbitrary: owners) (simp_all add: Let_def)

















text \<open>
  The table of previous trigger states is written only for a hand whose grip position
  was found and whose input source has a gamepad, so for a hand that was not recorded in
  the frame before it holds an older reading, or none. A right hand whose trigger is held
  while its grip position is unknown, and that is found 0.05 from the stick in the next
  frame with the trigger still held, attaches the stick. A right hand that pinches the
  air, then loses its input source for a frame, and then pinches 0.05 from the stick,
  does not attach it.
\<close>

lemma trigger_record_goes_stale:
  "map (\<lambda>e. attached (se_grab e))
     (sticks (fold StickGrabSystem_update [lostHandFrame, graspFrame] restWorld)) = [True]
   \<and> map (\<lambda>e. attached (se_grab e))
     (sticks (fold StickGrabSystem_update
        [rightHandFrame 0.016 (1, 0, 0) True, noSourceFrame, graspFrame] restWorld)) = [False]"
  by (simp add: stick_eval stick_scene lostHandFrame_def graspFrame_def noSourceFrame_def
        sqrt_values)




end
